theory Spec2Isabelle
  imports Main
begin

section \<open>Values of the JavaScript runtime\<close>

text \<open>
  A value that travels through \<^verbatim>\<open>throw\<close> or a rejected promise.  Everything the program
  throws itself is an \<^verbatim>\<open>Error\<close> carrying a message; \<open>Other\<close> stands for a value that is
  not an instance of \<^verbatim>\<open>Error\<close> (a dependency may reject with one), kept as the string
  that \<^verbatim>\<open>String(error)\<close> gives for it.
\<close>

datatype thrown = Error (message: string) | Other (rendered: string)

text \<open>
  \<^verbatim>\<open>Number.prototype.toString\<close> on the integers the program renders (the clamped count, the
  offset, the HTTP status, the review count): plain decimal digits, with a leading minus
  sign for negative values.
\<close>

definition digit :: "nat \<Rightarrow> char" where
  "digit d = ''0123456789'' ! d"

fun natToString :: "nat \<Rightarrow> string" where
  "natToString n =
     (if n < 10 then [digit n] else natToString (n div 10) @ [digit (n mod 10)])"

declare natToString.simps [simp del]

definition toString :: "int \<Rightarrow> string" where
  "toString i = (if i < 0 then CHR ''-'' # natToString (nat (- i)) else natToString (nat i))"

text \<open>\<^verbatim>\<open>Array.prototype.join\<close> on an array of strings.\<close>

fun join :: "string \<Rightarrow> string list \<Rightarrow> string" where
  "join sep [] = []"
| "join sep [x] = x"
| "join sep (x # y # ys) = x @ sep @ join sep (y # ys)"

text \<open>
  \<^verbatim>\<open>a || b\<close> on strings (the empty string is falsy) and on optional strings (so is
  \<^verbatim>\<open>undefined\<close>); \<^verbatim>\<open>a ?? b\<close> only replaces \<^verbatim>\<open>undefined\<close> and \<^verbatim>\<open>null\<close>.
\<close>

definition or_else :: "string \<Rightarrow> string \<Rightarrow> string" where
  "or_else a b = (if a = [] then b else a)"

definition opt_or_else :: "string option \<Rightarrow> string \<Rightarrow> string" where
  "opt_or_else a b = (case a of None \<Rightarrow> b | Some v \<Rightarrow> or_else v b)"

definition nullish :: "'a option \<Rightarrow> 'a \<Rightarrow> 'a" where
  "nullish a b = (case a of None \<Rightarrow> b | Some v \<Rightarrow> v)"

section \<open>Start-up: the API credential\<close>

text \<open>
  \<^verbatim>\<open>var BRAVE_API_KEY = process.env.BRAVE_API_KEY || "BSAPvn4j_7Yc1vqP6mBse4_yZRWA2p4";\<close>
  followed by \<^verbatim>\<open>if (!BRAVE_API_KEY) { console.error(...); process.exit(1); }\<close>.
  An environment variable is a string or is not set.
\<close>

definition placeholder_key :: string where
  "placeholder_key = ''BSAPvn4j_7Yc1vqP6mBse4_yZRWA2p4''"

definition BRAVE_API_KEY :: "string option \<Rightarrow> string" where
  "BRAVE_API_KEY env = opt_or_else env placeholder_key"

datatype startup = Exit int | Continue

definition check_api_key :: "string option \<Rightarrow> startup" where
  "check_api_key env = (if BRAVE_API_KEY env = [] then Exit 1 else Continue)"

section \<open>Rate limiter\<close>

record requestCount =
  second :: nat
  month :: nat
  lastReset :: int

definition RATE_LIMIT_perSecond :: nat where
  "RATE_LIMIT_perSecond = 1"

definition RATE_LIMIT_perMonth :: nat where
  "RATE_LIMIT_perMonth = 15000"

text \<open>
  \<^verbatim>\<open>checkRateLimit\<close>, with the reading of \<^verbatim>\<open>Date.now()\<close> as the argument \<open>now\<close> and the
  module-level counters passed in and returned.  The counters come back also when the
  function throws: the window reset happens before the threshold check.
\<close>

definition checkRateLimit :: "int \<Rightarrow> requestCount \<Rightarrow> (thrown + unit) \<times> requestCount" where
  "checkRateLimit now rc =
     (let rc1 = (if now - lastReset rc > 1000 then rc\<lparr>second := 0, lastReset := now\<rparr> else rc)
      in if second rc1 \<ge> RATE_LIMIT_perSecond \<or> month rc1 \<ge> RATE_LIMIT_perMonth
         then (Inl (Error ''Rate limit exceeded''), rc1)
         else (Inr (), rc1\<lparr>second := second rc1 + 1, month := month rc1 + 1\<rparr>))"

text \<open>A run of calls at the given clock readings, with the outcome of each call.\<close>

fun checkRateLimit_calls :: "int list \<Rightarrow> requestCount \<Rightarrow> (thrown + unit) list \<times> requestCount" where
  "checkRateLimit_calls [] rc = ([], rc)"
| "checkRateLimit_calls (now # nows) rc =
     (case checkRateLimit now rc of
        (r, rc1) \<Rightarrow> (case checkRateLimit_calls nows rc1 of (rs, rc2) \<Rightarrow> (r # rs, rc2)))"

section \<open>The upstream API\<close>

text \<open>
  A request as \<^verbatim>\<open>fetch\<close> receives it: the URL without its query, the query parameters in
  order, and the headers.  \<^verbatim>\<open>URLSearchParams.set\<close> overwrites the first entry of the key and
  drops the others, or appends when there is none; \<^verbatim>\<open>append\<close> always adds at the end;
  \<^verbatim>\<open>get\<close> reads the first entry of the key.
\<close>

record request =
  endpoint :: string
  searchParams :: "(string \<times> string) list"
  headers :: "(string \<times> string) list"

fun searchParams_set :: "string \<Rightarrow> string \<Rightarrow> (string \<times> string) list \<Rightarrow> (string \<times> string) list" where
  "searchParams_set k v [] = [(k, v)]"
| "searchParams_set k v (p # ps) =
     (if fst p = k then (k, v) # filter (\<lambda>q. fst q \<noteq> k) ps else p # searchParams_set k v ps)"

definition searchParams_append :: "string \<Rightarrow> string \<Rightarrow> (string \<times> string) list \<Rightarrow> (string \<times> string) list" where
  "searchParams_append k v ps = ps @ [(k, v)]"

definition searchParams_get :: "(string \<times> string) list \<Rightarrow> string \<Rightarrow> string option" where
  "searchParams_get ps k = map_of ps k"

definition request_headers :: "string \<Rightarrow> (string \<times> string) list" where
  "request_headers key =
     [(''Accept'', ''application/json''), (''Accept-Encoding'', ''gzip''),
      (''X-Subscription-Token'', key)]"

text \<open>
  A response: \<^verbatim>\<open>ok\<close>, \<^verbatim>\<open>status\<close>, \<^verbatim>\<open>statusText\<close>, and what awaiting \<^verbatim>\<open>text()\<close> and
  \<^verbatim>\<open>json()\<close> gives (either may reject).  The JSON body has the type the source casts it
  to.
\<close>

record 'j response =
  ok :: bool
  status :: int
  statusText :: string
  body_text :: "thrown + string"
  body_json :: "thrown + 'j"

text \<open>
  The shapes of the JSON bodies, after the interfaces \<^verbatim>\<open>BraveWeb\<close>, \<^verbatim>\<open>BraveLocation\<close>,
  \<^verbatim>\<open>BravePoiResponse\<close> and \<^verbatim>\<open>BraveDescription\<close>.  A field is optional here wherever the
  code guards its absence (\<^verbatim>\<open>?.\<close>, \<^verbatim>\<open>??\<close>, \<^verbatim>\<open>||\<close>), whatever the interface declares; the
  fields the interface requires and the code reads unguarded (\<^verbatim>\<open>id\<close>, \<^verbatim>\<open>name\<close>,
  \<^verbatim>\<open>descriptions\<close>) are present.  The rating value is a JavaScript number of type \<open>'n\<close>,
  whose rendering is a parameter of the formatter; the review count is an integer.
\<close>

record webResult =
  title :: "string option"
  description :: "string option"
  url :: "string option"

record webSection =
  web_results :: "webResult list option"

record locationResult =
  location_id :: "string option"

record locationsSection =
  locations_results :: "locationResult list option"

record braveWeb =
  web :: "webSection option"
  locations :: "locationsSection option"

record postalAddress =
  streetAddress :: "string option"
  addressLocality :: "string option"
  addressRegion :: "string option"
  postalCode :: "string option"

record 'n poiRating =
  ratingValue :: "'n option"
  ratingCount :: "int option"

record 'n braveLocation =
  poi_id :: string
  name :: string
  address :: "postalAddress option"
  phone :: "string option"
  rating :: "'n poiRating option"
  openingHours :: "string list option"
  priceRange :: "string option"

record 'n bravePoiResponse =
  pois_results :: "'n braveLocation list option"

record braveDescription =
  descriptions :: "string \<rightharpoonup> string"

text \<open>
  Everything outside the program that a run depends on: the environment variable, the
  successive readings of \<^verbatim>\<open>Date.now()\<close> (reading 0 is the one taken when the module
  loads), what \<^verbatim>\<open>fetch\<close> resolves or rejects with for the k-th request of the run at each of
  the three endpoints, and, when the two concurrent look-ups of a local search both fail
  after their requests went out, whether the descriptions look-up is the first to fail.
\<close>

record 'n world =
  env_BRAVE_API_KEY :: "string option"
  Date_now :: "nat \<Rightarrow> int"
  fetch_web :: "nat \<Rightarrow> request \<Rightarrow> thrown + braveWeb response"
  fetch_pois :: "nat \<Rightarrow> request \<Rightarrow> thrown + 'n bravePoiResponse response"
  fetch_descriptions :: "nat \<Rightarrow> request \<Rightarrow> thrown + braveDescription response"
  descriptions_fail_first :: bool

text \<open>
  The state of the process: the module-level counters, how many times the clock has been
  read, and the requests sent so far.
\<close>

record state =
  requestCount :: requestCount
  clock_reads :: nat
  sent :: "request list"

definition initial_state :: "'n world \<Rightarrow> state" where
  "initial_state w =
     \<lparr>requestCount = \<lparr>second = 0, month = 0, lastReset = Date_now w 0\<rparr>,
      clock_reads = 1, sent = []\<rparr>"

text \<open>A call of \<^verbatim>\<open>checkRateLimit()\<close> in a run: it reads the clock once.\<close>

definition call_checkRateLimit :: "'n world \<Rightarrow> state \<Rightarrow> (thrown + unit) \<times> state" where
  "call_checkRateLimit w s =
     (case checkRateLimit (Date_now w (clock_reads s)) (requestCount s) of
        (r, rc) \<Rightarrow> (r, s\<lparr>requestCount := rc, clock_reads := Suc (clock_reads s)\<rparr>))"

text \<open>\<^verbatim>\<open>await fetch(url, {headers})\<close>: the request goes out and the upstream answers.\<close>

definition fetch :: "(nat \<Rightarrow> request \<Rightarrow> thrown + 'j response) \<Rightarrow> request \<Rightarrow> state \<Rightarrow>
    (thrown + 'j response) \<times> state" where
  "fetch upstream req s = (upstream (length (sent s)) req, s\<lparr>sent := sent s @ [req]\<rparr>)"

text \<open>
  The block each of the four calling functions repeats after its \<^verbatim>\<open>fetch\<close>:
  \<^verbatim>\<open>if (!response.ok) throw new Error(`Brave API error: ${response.status}
  ${response.statusText}\n${await response.text()}`); ... await response.json()\<close>.
\<close>

definition ok_json :: "thrown + 'j response \<Rightarrow> thrown + 'j" where
  "ok_json r =
     (case r of
        Inl e \<Rightarrow> Inl e
      | Inr response \<Rightarrow>
          if \<not> ok response then
            (case body_text response of
               Inl e \<Rightarrow> Inl e
             | Inr t \<Rightarrow> Inl (Error (''Brave API error: '' @ toString (status response) @ '' '' @
                                      statusText response @ ''\<newline>'' @ t)))
          else body_json response)"

definition web_search_url :: string where
  "web_search_url = ''https://api.search.brave.com/res/v1/web/search''"

definition local_pois_url :: string where
  "local_pois_url = ''https://api.search.brave.com/res/v1/local/pois''"

definition local_descriptions_url :: string where
  "local_descriptions_url = ''https://api.search.brave.com/res/v1/local/descriptions''"

section \<open>Web search\<close>

text \<open>The request \<^verbatim>\<open>performWebSearch\<close> builds, defaults of \<^verbatim>\<open>count\<close> and \<^verbatim>\<open>offset\<close> applied.\<close>

definition web_search_request :: "string \<Rightarrow> string \<Rightarrow> int \<Rightarrow> int \<Rightarrow> request" where
  "web_search_request key query count offset =
     \<lparr>endpoint = web_search_url,
      searchParams =
        searchParams_set ''offset'' (toString offset)
          (searchParams_set ''count'' (toString (min count 20))
            (searchParams_set ''q'' query [])),
      headers = request_headers key\<rparr>"

text \<open>The text made from the JSON body of a successful web search.\<close>

definition web_results_text :: "braveWeb \<Rightarrow> string" where
  "web_results_text data =
     (let results =
            map (\<lambda>result. (opt_or_else (title result) [],
                            opt_or_else (description result) [],
                            opt_or_else (url result) []))
              (nullish (Option.bind (web data) web_results) [])
      in join ''\<newline>\<newline>''
           (map (\<lambda>(t, d, u). ''Title: '' @ t @ ''\<newline>Description: '' @ d @ ''\<newline>URL: '' @ u)
              results))"

definition performWebSearch ::
    "'n world \<Rightarrow> string \<Rightarrow> int option \<Rightarrow> int option \<Rightarrow> state \<Rightarrow> (thrown + string) \<times> state" where
  "performWebSearch w query count offset s =
     (case call_checkRateLimit w s of
        (Inl e, s1) \<Rightarrow> (Inl e, s1)
      | (Inr _, s1) \<Rightarrow>
          (case fetch (fetch_web w)
                  (web_search_request (BRAVE_API_KEY (env_BRAVE_API_KEY w)) query
                     (nullish count 10) (nullish offset 0)) s1 of
             (r, s2) \<Rightarrow>
               (case ok_json r of
                  Inl e \<Rightarrow> (Inl e, s2)
                | Inr data \<Rightarrow> (Inr (web_results_text data), s2))))"

section \<open>Local search\<close>

text \<open>
  The callback of \<^verbatim>\<open>formatLocalResults\<close>: the text block of one place.  \<open>numToString\<close>
  renders the rating value as template-literal interpolation does.
\<close>

definition format_poi :: "('n \<Rightarrow> string) \<Rightarrow> braveDescription \<Rightarrow> 'n braveLocation \<Rightarrow> string" where
  "format_poi numToString descData poi =
     (let address =
            or_else
              (join '', ''
                 (filter (\<lambda>part. part \<noteq> [])
                    [nullish (Option.bind (address poi) streetAddress) [],
                     nullish (Option.bind (address poi) addressLocality) [],
                     nullish (Option.bind (address poi) addressRegion) [],
                     nullish (Option.bind (address poi) postalCode) []]))
              ''N/A''
      in ''Name: '' @ name poi @
         ''\<newline>Address: '' @ address @
         ''\<newline>Phone: '' @ opt_or_else (phone poi) ''N/A'' @
         ''\<newline>Rating: '' @
           (case Option.bind (rating poi) ratingValue of
              None \<Rightarrow> ''N/A'' | Some v \<Rightarrow> numToString v) @
         '' ('' @ toString (nullish (Option.bind (rating poi) ratingCount) 0) @
         '' reviews)\<newline>Price Range: '' @ opt_or_else (priceRange poi) ''N/A'' @
         ''\<newline>Hours: '' @ or_else (join '', '' (nullish (openingHours poi) [])) ''N/A'' @
         ''\<newline>Description: '' @
           opt_or_else (descriptions descData (poi_id poi)) ''No description available'' @
         ''\<newline>'')"

definition formatLocalResults ::
    "('n \<Rightarrow> string) \<Rightarrow> 'n bravePoiResponse \<Rightarrow> braveDescription \<Rightarrow> string" where
  "formatLocalResults numToString poisData descData =
     or_else
       (join ''\<newline>---\<newline>''
          (map (format_poi numToString descData) (nullish (pois_results poisData) [])))
       ''No local results found''"

text \<open>
  The promise an \<^verbatim>\<open>async\<close> function returns, as far as \<^verbatim>\<open>Promise.all\<close> can tell two of
  them apart: rejected before the function first suspended (here: by the rate limiter,
  before any request is made), or settled once its request has been answered.
\<close>

datatype 'a promise = Rejected_at_once thrown | In_flight "thrown + 'a"

definition ids_request :: "string \<Rightarrow> string \<Rightarrow> string list \<Rightarrow> request" where
  "ids_request key u ids =
     \<lparr>endpoint = u,
      searchParams =
        foldl (\<lambda>ps i. searchParams_append ''ids'' i ps) [] (filter (\<lambda>i. i \<noteq> []) ids),
      headers = request_headers key\<rparr>"

definition getPoisData ::
    "'n world \<Rightarrow> string list \<Rightarrow> state \<Rightarrow> 'n bravePoiResponse promise \<times> state" where
  "getPoisData w ids s =
     (case call_checkRateLimit w s of
        (Inl e, s1) \<Rightarrow> (Rejected_at_once e, s1)
      | (Inr _, s1) \<Rightarrow>
          (case fetch (fetch_pois w)
                  (ids_request (BRAVE_API_KEY (env_BRAVE_API_KEY w)) local_pois_url ids) s1 of
             (r, s2) \<Rightarrow> (In_flight (ok_json r), s2)))"

definition getDescriptionsData ::
    "'n world \<Rightarrow> string list \<Rightarrow> state \<Rightarrow> braveDescription promise \<times> state" where
  "getDescriptionsData w ids s =
     (case call_checkRateLimit w s of
        (Inl e, s1) \<Rightarrow> (Rejected_at_once e, s1)
      | (Inr _, s1) \<Rightarrow>
          (case fetch (fetch_descriptions w)
                  (ids_request (BRAVE_API_KEY (env_BRAVE_API_KEY w)) local_descriptions_url ids) s1 of
             (r, s2) \<Rightarrow> (In_flight (ok_json r), s2)))"

text \<open>
  \<^verbatim>\<open>await Promise.all([p, d])\<close>: both values when both fulfil, otherwise the first
  rejection.  A promise rejected at once precedes one that is in flight; of two that were
  rejected at once, the first of the array precedes; of two in flight, the world decides.
\<close>

definition Promise_all :: "bool \<Rightarrow> 'a promise \<Rightarrow> 'b promise \<Rightarrow> thrown + 'a \<times> 'b" where
  "Promise_all second_first p d =
     (case p of
        Rejected_at_once e \<Rightarrow> Inl e
      | In_flight rp \<Rightarrow>
          (case d of
             Rejected_at_once e \<Rightarrow> Inl e
           | In_flight rd \<Rightarrow>
               (case rp of
                  Inl ep \<Rightarrow>
                    (case rd of
                       Inl ed \<Rightarrow> Inl (if second_first then ed else ep)
                     | Inr _ \<Rightarrow> Inl ep)
                | Inr a \<Rightarrow> (case rd of Inl ed \<Rightarrow> Inl ed | Inr b \<Rightarrow> Inr (a, b)))))"

definition local_search_request :: "string \<Rightarrow> string \<Rightarrow> int \<Rightarrow> request" where
  "local_search_request key query count =
     \<lparr>endpoint = web_search_url,
      searchParams =
        searchParams_set ''count'' (toString (min count 20))
          (searchParams_set ''result_filter'' ''locations''
            (searchParams_set ''search_lang'' ''en''
              (searchParams_set ''q'' query []))),
      headers = request_headers key\<rparr>"

text \<open>
  \<^verbatim>\<open>webData.locations?.results?.filter(r => r.id != null).map(r => r.id) || []\<close>.
\<close>

definition locationIds :: "braveWeb \<Rightarrow> string list" where
  "locationIds webData =
     (case Option.bind (locations webData) locations_results of
        None \<Rightarrow> []
      | Some rs \<Rightarrow> map (\<lambda>r. the (location_id r)) (filter (\<lambda>r. location_id r \<noteq> None) rs))"

definition performLocalSearch ::
    "'n world \<Rightarrow> ('n \<Rightarrow> string) \<Rightarrow> string \<Rightarrow> int option \<Rightarrow> state \<Rightarrow> (thrown + string) \<times> state" where
  "performLocalSearch w numToString query count s =
     (case call_checkRateLimit w s of
        (Inl e, s1) \<Rightarrow> (Inl e, s1)
      | (Inr _, s1) \<Rightarrow>
          (case fetch (fetch_web w)
                  (local_search_request (BRAVE_API_KEY (env_BRAVE_API_KEY w)) query
                     (nullish count 5)) s1 of
             (r, s2) \<Rightarrow>
               (case ok_json r of
                  Inl e \<Rightarrow> (Inl e, s2)
                | Inr webData \<Rightarrow>
                    if length (locationIds webData) = 0
                    then performWebSearch w query (Some (nullish count 5)) None s2
                    else
                      (case getPoisData w (locationIds webData) s2 of
                         (p, s3) \<Rightarrow>
                           (case getDescriptionsData w (locationIds webData) s3 of
                              (d, s4) \<Rightarrow>
                                (case Promise_all (descriptions_fail_first w) p d of
                                   Inl e \<Rightarrow> (Inl e, s4)
                                 | Inr (poisData, descriptionsData) \<Rightarrow>
                                     (Inr (formatLocalResults numToString poisData
                                             descriptionsData), s4)))))))"

section \<open>The call-tool handler\<close>

text \<open>
  The arguments object of a request.  \<^verbatim>\<open>query\<close> is any JSON value or is missing, and only
  whether it is a string matters; \<^verbatim>\<open>count\<close> is a number where present, as the type guards
  assert without checking.
\<close>

datatype json_value = String string | Not_a_string

record arguments =
  query :: "json_value option"
  count :: "int option"

record callToolRequest =
  params_name :: string
  params_arguments :: "arguments option"

text \<open>The envelope: the texts of its content items (each of type \<^verbatim>\<open>text\<close>) and the flag.\<close>

record envelope =
  content :: "string list"
  isError :: bool

definition isBraveWebSearchArgs :: "arguments \<Rightarrow> bool" where
  "isBraveWebSearchArgs args = (case query args of Some (String _) \<Rightarrow> True | _ \<Rightarrow> False)"

definition isBraveLocalSearchArgs :: "arguments \<Rightarrow> bool" where
  "isBraveLocalSearchArgs args = (case query args of Some (String _) \<Rightarrow> True | _ \<Rightarrow> False)"

definition args_query :: "arguments \<Rightarrow> string" where
  "args_query args = (case query args of Some (String q) \<Rightarrow> q | _ \<Rightarrow> [])"

text \<open>The body of the \<^verbatim>\<open>try\<close> block: it returns an envelope or throws.\<close>

definition handler_try ::
    "'n world \<Rightarrow> ('n \<Rightarrow> string) \<Rightarrow> callToolRequest \<Rightarrow> state \<Rightarrow> (thrown + envelope) \<times> state" where
  "handler_try w numToString request s =
     (case params_arguments request of
        None \<Rightarrow> (Inl (Error ''No arguments provided''), s)
      | Some args \<Rightarrow>
          if params_name request = ''brave_web_search'' then
            if \<not> isBraveWebSearchArgs args
            then (Inl (Error ''Invalid arguments for brave_web_search''), s)
            else
              (case performWebSearch w (args_query args) (Some (nullish (count args) 10)) None s of
                 (Inl e, s1) \<Rightarrow> (Inl e, s1)
               | (Inr res, s1) \<Rightarrow> (Inr \<lparr>content = [res], isError = False\<rparr>, s1))
          else if params_name request = ''brave_local_search'' then
            if \<not> isBraveLocalSearchArgs args
            then (Inl (Error ''Invalid arguments for brave_local_search''), s)
            else
              (case performLocalSearch w numToString (args_query args)
                      (Some (nullish (count args) 5)) s of
                 (Inl e, s1) \<Rightarrow> (Inl e, s1)
               | (Inr res, s1) \<Rightarrow> (Inr \<lparr>content = [res], isError = False\<rparr>, s1))
          else (Inr \<lparr>content = [''Unknown tool: '' @ params_name request], isError = True\<rparr>, s))"

text \<open>
  The handler: the \<^verbatim>\<open>try\<close> block under its \<^verbatim>\<open>catch\<close> clause, which turns whatever was
  thrown into an envelope, with \<^verbatim>\<open>error instanceof Error ? error.message : String(error)\<close>
  as the text after the prefix.
\<close>

definition handler ::
    "'n world \<Rightarrow> ('n \<Rightarrow> string) \<Rightarrow> callToolRequest \<Rightarrow> state \<Rightarrow> envelope \<times> state" where
  "handler w numToString request s =
     (case handler_try w numToString request s of
        (Inl error, s1) \<Rightarrow>
          (\<lparr>content = [''Error: '' @ (case error of Error m \<Rightarrow> m | Other v \<Rightarrow> v)],
            isError = True\<rparr>, s1)
      | (Inr result, s1) \<Rightarrow> (result, s1))"

text \<open>The well-formed requests: a known tool, \<^verbatim>\<open>query\<close> a string, \<^verbatim>\<open>count\<close> given or not.\<close>

definition web_request :: "string \<Rightarrow> int option \<Rightarrow> callToolRequest" where
  "web_request q c =
     \<lparr>params_name = ''brave_web_search'',
      params_arguments = Some \<lparr>query = Some (String q), count = c\<rparr>\<rparr>"

definition local_request :: "string \<Rightarrow> int option \<Rightarrow> callToolRequest" where
  "local_request q c =
     \<lparr>params_name = ''brave_local_search'',
      params_arguments = Some \<lparr>query = Some (String q), count = c\<rparr>\<rparr>"

section \<open>Reference renderings and example runs\<close>


text \<open>
  Worlds for concrete runs.  The clock either advances five seconds between two readings
  or one millisecond; the web endpoint answers every request with the given response, the
  two local endpoints with one place and its description.
\<close>

definition slow_clock :: "nat \<Rightarrow> int" where
  "slow_clock k = 5000 * int k"

definition fast_clock :: "nat \<Rightarrow> int" where
  "fast_clock k = int k"

definition ok_response :: "'j \<Rightarrow> thrown + 'j response" where
  "ok_response j =
     Inr \<lparr>ok = True, status = 200, statusText = ''OK'', body_text = Inr [], body_json = Inr j\<rparr>"

definition error_response :: "thrown + 'j response" where
  "error_response =
     Inr \<lparr>ok = False, status = 429, statusText = ''Too Many Requests'', body_text = Inr ''slow down'',
          body_json = Inl (Error ''Unexpected token'')\<rparr>"

definition web_body :: braveWeb where
  "web_body =
     \<lparr>web = Some \<lparr>web_results =
        Some [\<lparr>title = Some ''T'', description = Some ''D'', url = Some ''U''\<rparr>]\<rparr>,
      locations = None\<rparr>"

definition places_body :: braveWeb where
  "places_body =
     \<lparr>web = None,
      locations = Some \<lparr>locations_results = Some [\<lparr>location_id = Some ''a1''\<rparr>]\<rparr>\<rparr>"

definition example_poi :: "int braveLocation" where
  "example_poi =
     \<lparr>poi_id = ''a1'', name = ''Cafe'',
      address = Some \<lparr>streetAddress = Some ''1 Main St'', addressLocality = None,
                      addressRegion = Some [], postalCode = Some ''90210''\<rparr>,
      phone = None, rating = Some \<lparr>ratingValue = Some 4, ratingCount = None\<rparr>,
      openingHours = None, priceRange = Some ''$$''\<rparr>"

definition example_world :: "(nat \<Rightarrow> int) \<Rightarrow> (thrown + braveWeb response) \<Rightarrow> int world" where
  "example_world clock web_response =
     \<lparr>env_BRAVE_API_KEY = None,
      Date_now = clock,
      fetch_web = (\<lambda>k req. web_response),
      fetch_pois = (\<lambda>k req. ok_response \<lparr>pois_results = Some [example_poi]\<rparr>),
      fetch_descriptions = (\<lambda>k req. ok_response \<lparr>descriptions = [''a1'' \<mapsto> ''Nice'']\<rparr>),
      descriptions_fail_first = False\<rparr>"

section \<open>Properties of the start-up check\<close>

text \<open>
  Claim C10.  The branch that reports a missing credential and exits is dead code: the
  key is the placeholder when the variable is unset and when it is empty, the placeholder
  is not empty, hence for every environment the key is not empty and the check lets the
  process continue.
\<close>

theorem api_key_exit_unreachable:
  "BRAVE_API_KEY None = placeholder_key \<and> BRAVE_API_KEY (Some []) = placeholder_key \<and>
   placeholder_key \<noteq> [] \<and>
   (\<forall>env. BRAVE_API_KEY env \<noteq> [] \<and> check_api_key env = Continue)"
proof -
  have ne: "placeholder_key \<noteq> []"
    by (simp add: placeholder_key_def)
  have key: "BRAVE_API_KEY env \<noteq> []" for env
    using ne by (cases env) (simp_all add: BRAVE_API_KEY_def opt_or_else_def or_else_def)
  show ?thesis
    using ne key by (simp add: check_api_key_def BRAVE_API_KEY_def opt_or_else_def or_else_def)
qed

section \<open>Properties of the rate limiter\<close>

lemma checkRateLimit_no_reset:
  "\<not> now - lastReset rc > 1000 \<Longrightarrow>
   checkRateLimit now rc =
     (if second rc \<ge> 1 \<or> month rc \<ge> 15000 then (Inl (Error ''Rate limit exceeded''), rc)
      else (Inr (), rc\<lparr>second := second rc + 1, month := month rc + 1\<rparr>))"
  by (simp add: checkRateLimit_def RATE_LIMIT_perSecond_def RATE_LIMIT_perMonth_def)

lemma checkRateLimit_reset:
  "now - lastReset rc > 1000 \<Longrightarrow>
   checkRateLimit now rc =
     (if month rc \<ge> 15000
      then (Inl (Error ''Rate limit exceeded''), rc\<lparr>second := 0, lastReset := now\<rparr>)
      else (Inr (), rc\<lparr>second := 1, month := month rc + 1, lastReset := now\<rparr>))"
  by (simp add: checkRateLimit_def RATE_LIMIT_perSecond_def RATE_LIMIT_perMonth_def)

lemma checkRateLimit_leaves_blocked:
  "1 \<le> second (snd (checkRateLimit now rc)) \<or> 15000 \<le> month (snd (checkRateLimit now rc))"
  by (cases "now - lastReset rc > 1000")
     (simp_all add: checkRateLimit_no_reset checkRateLimit_reset)

lemma checkRateLimit_blocked:
  "1 \<le> second rc \<or> 15000 \<le> month rc \<Longrightarrow> \<not> now - lastReset rc > 1000 \<Longrightarrow>
   checkRateLimit now rc = (Inl (Error ''Rate limit exceeded''), rc)"
  by (simp add: checkRateLimit_no_reset)

lemma checkRateLimit_month_mono: "month rc \<le> month (snd (checkRateLimit now rc))"
  by (cases "now - lastReset rc > 1000")
     (simp_all add: checkRateLimit_no_reset checkRateLimit_reset)

lemma checkRateLimit_month_exhausted:
  "15000 \<le> month rc \<Longrightarrow>
   fst (checkRateLimit now rc) = Inl (Error ''Rate limit exceeded'') \<and>
   month (snd (checkRateLimit now rc)) = month rc"
  by (cases "now - lastReset rc > 1000")
     (simp_all add: checkRateLimit_no_reset checkRateLimit_reset)

text \<open>
  Claim C2, as the code has it.  (1) After any call, a further call that does not open a
  new window (its clock reading is at most 1000 ms past the reset timestamp the first call
  left) throws \<^verbatim>\<open>Rate limit exceeded\<close> and changes nothing.  (2) A call made more than
  1000 ms after the last reset, with the per-month counter below 15000, succeeds: the
  per-second counter restarts from zero and counts this call, the reset timestamp is the
  clock reading, the per-month counter is one higher.  (3) Whenever a call succeeds, both
  counters are one above their values at the threshold check.
\<close>

theorem checkRateLimit_window:
  "(now2 - lastReset (snd (checkRateLimit now1 rc)) \<le> 1000 \<longrightarrow>
      checkRateLimit now2 (snd (checkRateLimit now1 rc)) =
        (Inl (Error ''Rate limit exceeded''), snd (checkRateLimit now1 rc))) \<and>
   (now - lastReset rc > 1000 \<and> month rc < 15000 \<longrightarrow>
      checkRateLimit now rc = (Inr (), \<lparr>second = 1, month = month rc + 1, lastReset = now\<rparr>)) \<and>
   (fst (checkRateLimit now rc) = Inr () \<longrightarrow>
      second (snd (checkRateLimit now rc)) =
        (if now - lastReset rc > 1000 then 0 else second rc) + 1 \<and>
      month (snd (checkRateLimit now rc)) = month rc + 1)"
proof (intro conjI impI)
  assume "now2 - lastReset (snd (checkRateLimit now1 rc)) \<le> 1000"
  then have "\<not> now2 - lastReset (snd (checkRateLimit now1 rc)) > 1000"
    by simp
  with checkRateLimit_leaves_blocked [of now1 rc]
  show "checkRateLimit now2 (snd (checkRateLimit now1 rc)) =
          (Inl (Error ''Rate limit exceeded''), snd (checkRateLimit now1 rc))"
    by (rule checkRateLimit_blocked)
next
  assume "now - lastReset rc > 1000 \<and> month rc < 15000"
  then show "checkRateLimit now rc =
               (Inr (), \<lparr>second = 1, month = month rc + 1, lastReset = now\<rparr>)"
    by (simp add: checkRateLimit_reset)
next
  assume ok: "fst (checkRateLimit now rc) = Inr ()"
  show "second (snd (checkRateLimit now rc)) =
          (if now - lastReset rc > 1000 then 0 else second rc) + 1"
    using ok by (cases "now - lastReset rc > 1000")
      (simp_all add: checkRateLimit_no_reset checkRateLimit_reset split: if_splits)
  show "month (snd (checkRateLimit now rc)) = month rc + 1"
    using ok by (cases "now - lastReset rc > 1000")
      (simp_all add: checkRateLimit_no_reset checkRateLimit_reset split: if_splits)
qed

theorem checkRateLimit_window_witness:
  "checkRateLimit 1500 (snd (checkRateLimit 1200 \<lparr>second = 1, month = 7, lastReset = 100\<rparr>)) =
     (Inl (Error ''Rate limit exceeded''), \<lparr>second = 1, month = 8, lastReset = 1200\<rparr>) \<and>
   checkRateLimit 1200 \<lparr>second = 1, month = 7, lastReset = 100\<rparr> =
     (Inr (), \<lparr>second = 1, month = 8, lastReset = 1200\<rparr>) \<and>
   second (snd (checkRateLimit 1200 \<lparr>second = 1, month = 7, lastReset = 100\<rparr>)) = 1"
  using checkRateLimit_window [where ?now2.0 = 1500 and ?now1.0 = 1200 and now = 1200
      and rc = "\<lparr>second = 1, month = 7, lastReset = 100\<rparr>"]
  by (simp add: checkRateLimit_def RATE_LIMIT_perSecond_def RATE_LIMIT_perMonth_def)

text \<open>
  The claim as the specification words it fails twice: at exactly 1000 ms after the last
  reset the window is not reopened (the comparison is strict), and with the per-month
  counter at 15000 no elapsed time makes a call succeed.
\<close>

theorem checkRateLimit_after_1000ms_counterexample:
  "(1000::int) - lastReset \<lparr>second = 1, month = 1, lastReset = 0\<rparr> \<ge> 1000 \<and>
   checkRateLimit 1000 \<lparr>second = 1, month = 1, lastReset = 0\<rparr> =
     (Inl (Error ''Rate limit exceeded''), \<lparr>second = 1, month = 1, lastReset = 0\<rparr>) \<and>
   (5000::int) - lastReset \<lparr>second = 0, month = 15000, lastReset = 0\<rparr> \<ge> 1000 \<and>
   fst (checkRateLimit 5000 \<lparr>second = 0, month = 15000, lastReset = 0\<rparr>) =
     Inl (Error ''Rate limit exceeded'')"
  by (simp add: checkRateLimit_def RATE_LIMIT_perSecond_def RATE_LIMIT_perMonth_def)

lemma checkRateLimit_calls_month_mono:
  "month rc \<le> month (snd (checkRateLimit_calls nows rc))"
proof (induction nows arbitrary: rc)
  case Nil
  show ?case by simp
next
  case (Cons now nows)
  have "month rc \<le> month (snd (checkRateLimit now rc))"
    by (rule checkRateLimit_month_mono)
  also have "\<dots> \<le> month (snd (checkRateLimit_calls nows (snd (checkRateLimit now rc))))"
    by (rule Cons.IH)
  finally show ?case
    by (simp add: split_beta)
qed

lemma checkRateLimit_calls_exhausted:
  "15000 \<le> month rc \<Longrightarrow>
   fst (checkRateLimit_calls nows rc) = replicate (length nows) (Inl (Error ''Rate limit exceeded'')) \<and>
   month (snd (checkRateLimit_calls nows rc)) = month rc"
proof (induction nows arbitrary: rc)
  case Nil
  show ?case by simp
next
  case (Cons now nows)
  from checkRateLimit_month_exhausted [OF Cons.prems, of now]
  have one: "fst (checkRateLimit now rc) = Inl (Error ''Rate limit exceeded'')"
    and same: "month (snd (checkRateLimit now rc)) = month rc"
    by simp_all
  from Cons.prems same have "15000 \<le> month (snd (checkRateLimit now rc))"
    by simp
  from Cons.IH [OF this] one same show ?case
    by (simp add: split_beta)
qed

section \<open>Properties of the web search\<close>

lemma toString_20: "toString 20 = ''20''"
  by code_simp

lemma checkRateLimit_outcome:
  "fst (checkRateLimit now rc) = Inr () \<or>
   fst (checkRateLimit now rc) = Inl (Error ''Rate limit exceeded'')"
  by (simp add: checkRateLimit_def Let_def)

lemma call_checkRateLimit_eq:
  "call_checkRateLimit w s =
     (fst (checkRateLimit (Date_now w (clock_reads s)) (requestCount s)),
      s\<lparr>requestCount := snd (checkRateLimit (Date_now w (clock_reads s)) (requestCount s)),
        clock_reads := Suc (clock_reads s)\<rparr>)"
  by (simp add: call_checkRateLimit_def split_beta)

lemma call_checkRateLimit_outcome:
  "fst (call_checkRateLimit w s) = Inr () \<or>
   fst (call_checkRateLimit w s) = Inl (Error ''Rate limit exceeded'')"
  using checkRateLimit_outcome [of "Date_now w (clock_reads s)" "requestCount s"]
  by (simp add: call_checkRateLimit_eq)

lemma call_checkRateLimit_sent [simp]: "sent (snd (call_checkRateLimit w s)) = sent s"
  by (simp add: call_checkRateLimit_eq)

lemma call_checkRateLimit_reads [simp]:
  "clock_reads (snd (call_checkRateLimit w s)) = Suc (clock_reads s)"
  by (simp add: call_checkRateLimit_eq)

text \<open>After any call the limiter is closed until a new window opens.\<close>

lemma call_checkRateLimit_again:
  assumes "Date_now w (Suc (clock_reads s)) -
             lastReset (requestCount (snd (call_checkRateLimit w s))) \<le> 1000"
  shows "fst (call_checkRateLimit w (snd (call_checkRateLimit w s))) =
           Inl (Error ''Rate limit exceeded'')"
proof -
  let ?now = "Date_now w (clock_reads s)" and ?rc = "requestCount s"
  have rc1: "requestCount (snd (call_checkRateLimit w s)) = snd (checkRateLimit ?now ?rc)"
    by (simp add: call_checkRateLimit_eq)
  from assms have "\<not> Date_now w (Suc (clock_reads s)) - lastReset (snd (checkRateLimit ?now ?rc)) > 1000"
    by (simp add: rc1)
  with checkRateLimit_leaves_blocked [of ?now ?rc]
  have "checkRateLimit (Date_now w (Suc (clock_reads s))) (snd (checkRateLimit ?now ?rc)) =
          (Inl (Error ''Rate limit exceeded''), snd (checkRateLimit ?now ?rc))"
    by (rule checkRateLimit_blocked)
  then show ?thesis
    by (simp add: call_checkRateLimit_eq [of w "snd (call_checkRateLimit w s)"] rc1)
qed

lemma performWebSearch_limited:
  "fst (call_checkRateLimit w s) = Inl e \<Longrightarrow>
   performWebSearch w q c off s = (Inl e, snd (call_checkRateLimit w s))"
  by (cases "call_checkRateLimit w s") (simp add: performWebSearch_def)

lemma performWebSearch_allowed:
  "fst (call_checkRateLimit w s) = Inr u \<Longrightarrow>
   performWebSearch w q c off s =
     (map_sum id web_results_text
        (ok_json (fetch_web w (length (sent s))
           (web_search_request (BRAVE_API_KEY (env_BRAVE_API_KEY w)) q (nullish c 10) (nullish off 0)))),
      (snd (call_checkRateLimit w s))
        \<lparr>sent := sent s @
           [web_search_request (BRAVE_API_KEY (env_BRAVE_API_KEY w)) q (nullish c 10) (nullish off 0)]\<rparr>)"
proof -
  assume a: "fst (call_checkRateLimit w s) = Inr u"
  obtain r s1 where c: "call_checkRateLimit w s = (r, s1)"
    by (cases "call_checkRateLimit w s")
  with a have r: "r = Inr u" by simp
  have s1: "sent s1 = sent s"
    using call_checkRateLimit_sent [of w s] c by simp
  show ?thesis
    by (simp add: performWebSearch_def c r fetch_def s1 split: sum.splits)
qed

lemma web_search_request_count:
  "searchParams_get (searchParams (web_search_request key q c off)) ''count'' =
     Some (toString (min c 20))"
  by (simp add: web_search_request_def searchParams_get_def)

text \<open>
  Claim C4.  With a count above 20, the request \<^verbatim>\<open>performWebSearch\<close> builds carries the
  query parameter \<^verbatim>\<open>count=20\<close>; and that request is the one, and the only one, the
  operation sends when the rate limiter lets it through (it sends none otherwise).
\<close>

theorem web_search_count_clamped:
  assumes "20 < c"
  shows "searchParams_get
           (searchParams (web_search_request (BRAVE_API_KEY (env_BRAVE_API_KEY w)) q c (nullish off 0)))
           ''count'' = Some ''20'' \<and>
         sent (snd (performWebSearch w q (Some c) off s)) =
           (if fst (call_checkRateLimit w s) = Inr ()
            then sent s @ [web_search_request (BRAVE_API_KEY (env_BRAVE_API_KEY w)) q c (nullish off 0)]
            else sent s)"
proof
  from assms have "min c 20 = 20" by simp
  then show "searchParams_get
           (searchParams (web_search_request (BRAVE_API_KEY (env_BRAVE_API_KEY w)) q c (nullish off 0)))
           ''count'' = Some ''20''"
    by (simp add: web_search_request_count toString_20)
next
  from call_checkRateLimit_outcome [of w s]
  show "sent (snd (performWebSearch w q (Some c) off s)) =
           (if fst (call_checkRateLimit w s) = Inr ()
            then sent s @ [web_search_request (BRAVE_API_KEY (env_BRAVE_API_KEY w)) q c (nullish off 0)]
            else sent s)"
  proof
    assume "fst (call_checkRateLimit w s) = Inr ()"
    then show ?thesis
      by (simp add: performWebSearch_allowed nullish_def)
  next
    assume "fst (call_checkRateLimit w s) = Inl (Error ''Rate limit exceeded'')"
    then show ?thesis
      by (simp add: performWebSearch_limited)
  qed
qed

lemmas run_defs =
  performWebSearch_def performLocalSearch_def getPoisData_def getDescriptionsData_def
  Promise_all_def call_checkRateLimit_def checkRateLimit_def RATE_LIMIT_perSecond_def
  RATE_LIMIT_perMonth_def fetch_def ok_json_def initial_state_def example_world_def
  slow_clock_def fast_clock_def ok_response_def error_response_def web_body_def places_body_def
  example_poi_def web_search_request_def local_search_request_def ids_request_def
  searchParams_append_def searchParams_get_def request_headers_def BRAVE_API_KEY_def
  placeholder_key_def opt_or_else_def or_else_def nullish_def web_results_text_def
  locationIds_def formatLocalResults_def format_poi_def web_search_url_def
  local_pois_url_def local_descriptions_url_def handler_def handler_try_def
  isBraveWebSearchArgs_def isBraveLocalSearchArgs_def args_query_def web_request_def
  local_request_def

theorem web_search_count_clamped_witness:
  "(20::int) < 25 \<and>
   sent (snd (performWebSearch (example_world slow_clock (ok_response web_body)) ''test''
                (Some 25) None (initial_state (example_world slow_clock (ok_response web_body))))) =
     [\<lparr>endpoint = ''https://api.search.brave.com/res/v1/web/search'',
       searchParams = [(''q'', ''test''), (''count'', ''20''), (''offset'', ''0'')],
       headers = [(''Accept'', ''application/json''), (''Accept-Encoding'', ''gzip''),
                  (''X-Subscription-Token'', ''BSAPvn4j_7Yc1vqP6mBse4_yZRWA2p4'')]\<rparr>]"
proof -
  have lt: "(20::int) < 25" by simp
  have z: "toString 0 = ''0''" by code_simp
  show ?thesis
    using lt web_search_count_clamped [OF lt,
        of "example_world slow_clock (ok_response web_body)" "''test''" None
           "initial_state (example_world slow_clock (ok_response web_body))"]
    by (simp add: run_defs toString_20 z)
qed






section \<open>Properties of the local-result formatter\<close>












section \<open>Properties of the local search\<close>

lemma call_checkRateLimit_sent_update:
  "call_checkRateLimit w (s\<lparr>sent := x\<rparr>) =
     (fst (call_checkRateLimit w s), (snd (call_checkRateLimit w s))\<lparr>sent := x\<rparr>)"
  by (simp add: call_checkRateLimit_eq)

lemma performLocalSearch_limited:
  "fst (call_checkRateLimit w s) = Inl e \<Longrightarrow>
   performLocalSearch w f q c s = (Inl e, snd (call_checkRateLimit w s))"
  by (cases "call_checkRateLimit w s") (simp add: performLocalSearch_def)

lemma performLocalSearch_upstream_failed:
  assumes "fst (call_checkRateLimit w s) = Inr u"
    and "ok_json (fetch_web w (length (sent s))
           (local_search_request (BRAVE_API_KEY (env_BRAVE_API_KEY w)) q (nullish c 5))) = Inl e"
  shows "fst (performLocalSearch w f q c s) = Inl e"
proof -
  obtain r s1 where c: "call_checkRateLimit w s = (r, s1)"
    by (cases "call_checkRateLimit w s")
  with assms(1) have r: "r = Inr u" by simp
  have s1: "sent s1 = sent s"
    using call_checkRateLimit_sent [of w s] c by simp
  show ?thesis
    using assms(2) by (simp add: performLocalSearch_def c r fetch_def s1)
qed

lemma performLocalSearch_fallback:
  assumes "fst (call_checkRateLimit w s) = Inr u"
    and "ok_json (fetch_web w (length (sent s))
           (local_search_request (BRAVE_API_KEY (env_BRAVE_API_KEY w)) q (nullish c 5))) =
         Inr webData"
    and "locationIds webData = []"
  shows "performLocalSearch w f q c s =
           performWebSearch w q (Some (nullish c 5)) None
             ((snd (call_checkRateLimit w s))
                \<lparr>sent := sent s @
                   [local_search_request (BRAVE_API_KEY (env_BRAVE_API_KEY w)) q (nullish c 5)]\<rparr>)"
proof -
  obtain r s1 where c: "call_checkRateLimit w s = (r, s1)"
    by (cases "call_checkRateLimit w s")
  with assms(1) have r: "r = Inr u" by simp
  have s1: "sent s1 = sent s"
    using call_checkRateLimit_sent [of w s] c by simp
  show ?thesis
    using assms(2,3) by (simp add: performLocalSearch_def c r fetch_def s1)
qed

lemma performLocalSearch_places:
  assumes "fst (call_checkRateLimit w s) = Inr u"
    and "ok_json (fetch_web w (length (sent s))
           (local_search_request (BRAVE_API_KEY (env_BRAVE_API_KEY w)) q (nullish c 5))) =
         Inr webData"
    and "locationIds webData \<noteq> []"
    and "fst (call_checkRateLimit w (snd (call_checkRateLimit w s))) = Inl e"
  shows "fst (performLocalSearch w f q c s) = Inl e"
proof -
  obtain r s1 where c: "call_checkRateLimit w s = (r, s1)"
    by (cases "call_checkRateLimit w s")
  with assms(1) have r: "r = Inr u" by simp
  have s1: "sent s1 = sent s"
    using call_checkRateLimit_sent [of w s] c by simp
  from assms(4) c have lim: "fst (call_checkRateLimit w s1) = Inl e"
    by simp
  obtain r2 s3 where c2: "call_checkRateLimit w s1 = (r2, s3)"
    by (cases "call_checkRateLimit w s1")
  with lim have r2: "r2 = Inl e" by simp
  have pois: "getPoisData w ids (s1\<lparr>sent := x\<rparr>) = (Rejected_at_once e, s3\<lparr>sent := x\<rparr>)" for ids x
    by (simp add: getPoisData_def call_checkRateLimit_sent_update c2 r2)
  show ?thesis
    using assms(2,3)
    by (simp add: performLocalSearch_def c r fetch_def s1 pois Promise_all_def split_beta)
qed

lemma call_checkRateLimit_blocked:
  assumes "1 \<le> second (requestCount s) \<or> 15000 \<le> month (requestCount s)"
    and "Date_now w (clock_reads s) - lastReset (requestCount s) \<le> 1000"
  shows "call_checkRateLimit w s =
           (Inl (Error ''Rate limit exceeded''), s\<lparr>clock_reads := Suc (clock_reads s)\<rparr>)"
proof -
  from assms(2) have "\<not> Date_now w (clock_reads s) - lastReset (requestCount s) > 1000"
    by simp
  with assms(1)
  have "checkRateLimit (Date_now w (clock_reads s)) (requestCount s) =
          (Inl (Error ''Rate limit exceeded''), requestCount s)"
    by (rule checkRateLimit_blocked)
  then show ?thesis
    by (simp add: call_checkRateLimit_eq)
qed

lemma performLocalSearch_both_rejected:
  assumes pass: "fst (call_checkRateLimit w s) = Inr ()"
    and json: "ok_json (fetch_web w (length (sent s))
           (local_search_request (BRAVE_API_KEY (env_BRAVE_API_KEY w)) q (nullish c 5))) =
         Inr webData"
    and ids: "locationIds webData \<noteq> []"
    and second_read: "Date_now w (Suc (clock_reads s)) -
           lastReset (requestCount (snd (call_checkRateLimit w s))) \<le> 1000"
    and third_read: "Date_now w (Suc (Suc (clock_reads s))) -
           lastReset (requestCount (snd (call_checkRateLimit w s))) \<le> 1000"
  shows "sent (snd (performLocalSearch w f q c s)) =
           sent s @ [local_search_request (BRAVE_API_KEY (env_BRAVE_API_KEY w)) q (nullish c 5)]"
proof -
  let ?req = "local_search_request (BRAVE_API_KEY (env_BRAVE_API_KEY w)) q (nullish c 5)"
  let ?now = "Date_now w (clock_reads s)"
  obtain r s1 where c1: "call_checkRateLimit w s = (r, s1)"
    by (cases "call_checkRateLimit w s")
  with pass have r: "r = Inr ()" by simp
  have s1: "sent s1 = sent s" "clock_reads s1 = Suc (clock_reads s)"
    using call_checkRateLimit_sent [of w s] call_checkRateLimit_reads [of w s] c1 by simp_all
  have "requestCount s1 = snd (checkRateLimit ?now (requestCount s))"
    using c1 by (auto simp: call_checkRateLimit_eq)
  with checkRateLimit_leaves_blocked [of ?now "requestCount s"]
  have closed: "1 \<le> second (requestCount s1) \<or> 15000 \<le> month (requestCount s1)"
    by simp
  let ?s2 = "s1\<lparr>sent := sent s @ [?req]\<rparr>"
  let ?s3 = "?s2\<lparr>clock_reads := Suc (Suc (clock_reads s))\<rparr>"
  let ?s4 = "?s2\<lparr>clock_reads := Suc (Suc (Suc (clock_reads s)))\<rparr>"
  have "call_checkRateLimit w ?s2 =
          (Inl (Error ''Rate limit exceeded''), ?s2\<lparr>clock_reads := Suc (clock_reads ?s2)\<rparr>)"
    using closed second_read c1 s1 by (intro call_checkRateLimit_blocked) simp_all
  then have k2: "call_checkRateLimit w ?s2 = (Inl (Error ''Rate limit exceeded''), ?s3)"
    by (simp add: s1)
  have "call_checkRateLimit w ?s3 =
          (Inl (Error ''Rate limit exceeded''), ?s3\<lparr>clock_reads := Suc (clock_reads ?s3)\<rparr>)"
    using closed third_read c1 by (intro call_checkRateLimit_blocked) simp_all
  then have k3: "call_checkRateLimit w ?s3 = (Inl (Error ''Rate limit exceeded''), ?s4)"
    by simp
  have pois: "getPoisData w (locationIds webData) ?s2 =
                (Rejected_at_once (Error ''Rate limit exceeded''), ?s3)"
    by (simp add: getPoisData_def k2)
  have desc: "getDescriptionsData w (locationIds webData) ?s3 =
                (Rejected_at_once (Error ''Rate limit exceeded''), ?s4)"
    by (simp add: getDescriptionsData_def k3)
  have "performLocalSearch w f q c s = (Inl (Error ''Rate limit exceeded''), ?s4)"
    using json ids
    by (simp add: performLocalSearch_def c1 r fetch_def s1 pois desc Promise_all_def)
  then show ?thesis
    by simp
qed

text \<open>
  Claim C1.  Take a local search whose second reading of the clock (the one of the rate
  check that follows the initial web call) is at most 1000 ms past the reset timestamp
  that the first rate check left, so that no new window opens.  Then the search never
  returns a text; a first rate check that passes leaves the per-second counter at 1, the
  limit; and when the first rate check passed and the initial web call delivered its JSON
  body, the search throws \<^verbatim>\<open>Rate limit exceeded\<close>, whether the body holds location
  identifiers (the check of the POI look-up fails) or not (the check of the fallback web
  search fails).  When there are identifiers and the third reading of the clock is in the
  window as well, both look-ups are refused by their rate checks: the initial request is
  the only one the search has sent.
\<close>

theorem local_search_single_window:
  assumes "Date_now w (Suc (clock_reads s)) -
             lastReset (requestCount (snd (call_checkRateLimit w s))) \<le> 1000"
  shows "(\<forall>t. fst (performLocalSearch w f q c s) \<noteq> Inr t) \<and>
         (fst (call_checkRateLimit w s) = Inr () \<longrightarrow>
          second (requestCount (snd (call_checkRateLimit w s))) = 1) \<and>
         (fst (call_checkRateLimit w s) = Inr () \<and>
          ok_json (fetch_web w (length (sent s))
            (local_search_request (BRAVE_API_KEY (env_BRAVE_API_KEY w)) q (nullish c 5))) =
          Inr webData \<longrightarrow>
          fst (performLocalSearch w f q c s) = Inl (Error ''Rate limit exceeded'')) \<and>
         (fst (call_checkRateLimit w s) = Inr () \<and>
          ok_json (fetch_web w (length (sent s))
            (local_search_request (BRAVE_API_KEY (env_BRAVE_API_KEY w)) q (nullish c 5))) =
          Inr webData \<and>
          locationIds webData \<noteq> [] \<and>
          Date_now w (Suc (Suc (clock_reads s))) -
            lastReset (requestCount (snd (call_checkRateLimit w s))) \<le> 1000 \<longrightarrow>
          sent (snd (performLocalSearch w f q c s)) =
            sent s @ [local_search_request (BRAVE_API_KEY (env_BRAVE_API_KEY w)) q (nullish c 5)])"
proof -
  let ?req = "local_search_request (BRAVE_API_KEY (env_BRAVE_API_KEY w)) q (nullish c 5)"
  let ?s1 = "snd (call_checkRateLimit w s)"
  from assms have again: "fst (call_checkRateLimit w ?s1) = Inl (Error ''Rate limit exceeded'')"
    by (rule call_checkRateLimit_again)
  have limited: "fst (performLocalSearch w f q c s) = Inl (Error ''Rate limit exceeded'')"
    if pass: "fst (call_checkRateLimit w s) = Inr ()"
      and json: "ok_json (fetch_web w (length (sent s)) ?req) = Inr d" for d
  proof (cases "locationIds d = []")
    case True
    have "fst (call_checkRateLimit w (?s1\<lparr>sent := sent s @ [?req]\<rparr>)) =
            Inl (Error ''Rate limit exceeded'')"
      using again by (simp add: call_checkRateLimit_sent_update)
    then have "fst (performWebSearch w q (Some (nullish c 5)) None (?s1\<lparr>sent := sent s @ [?req]\<rparr>)) =
            Inl (Error ''Rate limit exceeded'')"
      by (simp add: performWebSearch_limited)
    then show ?thesis
      by (simp add: performLocalSearch_fallback [OF pass json True])
  next
    case False
    from pass json False again show ?thesis
      by (rule performLocalSearch_places)
  qed
  have never: "fst (performLocalSearch w f q c s) \<noteq> Inr t" for t
  proof (cases "fst (call_checkRateLimit w s)")
    case (Inl e)
    then show ?thesis
      by (simp add: performLocalSearch_limited)
  next
    case (Inr u)
    then have pass: "fst (call_checkRateLimit w s) = Inr ()"
      by simp
    show ?thesis
    proof (cases "ok_json (fetch_web w (length (sent s)) ?req)")
      case (Inl e)
      with pass show ?thesis
        by (simp add: performLocalSearch_upstream_failed)
    next
      case (Inr d)
      with pass show ?thesis
        by (simp add: limited)
    qed
  qed
  have one: "second (requestCount (snd (call_checkRateLimit w s))) = 1"
    if "fst (call_checkRateLimit w s) = Inr ()"
    using that
    by (simp add: call_checkRateLimit_eq checkRateLimit_def Let_def RATE_LIMIT_perSecond_def
        split: if_splits)
  have none_sent: "sent (snd (performLocalSearch w f q c s)) = sent s @ [?req]"
    if "fst (call_checkRateLimit w s) = Inr ()"
      and "ok_json (fetch_web w (length (sent s)) ?req) = Inr webData"
      and "locationIds webData \<noteq> []"
      and "Date_now w (Suc (Suc (clock_reads s))) - lastReset (requestCount ?s1) \<le> 1000"
    using that(1-3) assms that(4) by (rule performLocalSearch_both_rejected)
  from never limited one none_sent show ?thesis
    by blast
qed

theorem local_search_single_window_witness:
  "fst (performLocalSearch (example_world fast_clock (ok_response places_body)) toString ''cafe''
         None (initial_state (example_world fast_clock (ok_response places_body)))) =
     Inl (Error ''Rate limit exceeded'') \<and>
   length (sent (snd (performLocalSearch (example_world fast_clock (ok_response places_body))
         toString ''cafe'' None
         (initial_state (example_world fast_clock (ok_response places_body)))))) = 1 \<and>
   fst (performLocalSearch (example_world fast_clock (ok_response web_body)) toString ''cafe''
         None (initial_state (example_world fast_clock (ok_response web_body)))) =
     Inl (Error ''Rate limit exceeded'')"
proof -
  let ?w = "example_world fast_clock (ok_response places_body)"
  let ?v = "example_world fast_clock (ok_response web_body)"
  have w1: "Date_now ?w (Suc (clock_reads (initial_state ?w))) -
              lastReset (requestCount (snd (call_checkRateLimit ?w (initial_state ?w)))) \<le> 1000"
    by (simp add: run_defs)
  have w2: "fst (call_checkRateLimit ?w (initial_state ?w)) = Inr ()"
    by (simp add: run_defs)
  have w3: "ok_json (fetch_web ?w (length (sent (initial_state ?w)))
              (local_search_request (BRAVE_API_KEY (env_BRAVE_API_KEY ?w)) ''cafe'' (nullish None 5))) =
            Inr places_body"
    by (simp add: example_world_def ok_response_def ok_json_def)
  have w4: "locationIds places_body \<noteq> []"
    by (simp add: locationIds_def places_body_def)
  have w5: "Date_now ?w (Suc (Suc (clock_reads (initial_state ?w)))) -
              lastReset (requestCount (snd (call_checkRateLimit ?w (initial_state ?w)))) \<le> 1000"
    by (simp add: run_defs)
  have v1: "Date_now ?v (Suc (clock_reads (initial_state ?v))) -
              lastReset (requestCount (snd (call_checkRateLimit ?v (initial_state ?v)))) \<le> 1000"
    by (simp add: run_defs)
  have v2: "fst (call_checkRateLimit ?v (initial_state ?v)) = Inr ()"
    by (simp add: run_defs)
  have v3: "ok_json (fetch_web ?v (length (sent (initial_state ?v)))
              (local_search_request (BRAVE_API_KEY (env_BRAVE_API_KEY ?v)) ''cafe'' (nullish None 5))) =
            Inr web_body"
    by (simp add: example_world_def ok_response_def ok_json_def)
  note at_w = local_search_single_window [OF w1, of toString "''cafe''" None places_body]
  from at_w w2 w3
  have first: "fst (performLocalSearch ?w toString ''cafe'' None (initial_state ?w)) =
                 Inl (Error ''Rate limit exceeded'')"
    by blast
  from at_w w2 w3 w4 w5
  have "sent (snd (performLocalSearch ?w toString ''cafe'' None (initial_state ?w))) =
          sent (initial_state ?w) @
            [local_search_request (BRAVE_API_KEY (env_BRAVE_API_KEY ?w)) ''cafe'' (nullish None 5)]"
    by blast
  then have second: "length (sent (snd (performLocalSearch ?w toString ''cafe'' None
                       (initial_state ?w)))) = 1"
    by (simp add: initial_state_def)
  from local_search_single_window [OF v1, of toString "''cafe''" None web_body] v2 v3
  have "fst (performLocalSearch ?v toString ''cafe'' None (initial_state ?v)) =
          Inl (Error ''Rate limit exceeded'')"
    by blast
  with first second show ?thesis
    by blast
qed

text \<open>
  Claim C3.  When the rate limiter lets the local search through and the body of its
  initial, locations-filtered web call yields no location identifier, the local search is
  from there on the call \<^verbatim>\<open>performWebSearch(query, count)\<close>, with the same query and the
  same count (5 when none was given): it returns what that call returns, text or error,
  and leaves the state that call leaves.  Spelled out: the error of the second rate check
  when that one refuses, and otherwise the outcome of a web search request for this query
  and count, whose text is the text of web results with nothing added.
\<close>

theorem local_search_fallback_is_web_search:
  assumes "fst (call_checkRateLimit w s) = Inr ()"
    and "ok_json (fetch_web w (length (sent s))
           (local_search_request (BRAVE_API_KEY (env_BRAVE_API_KEY w)) q (nullish c 5))) =
         Inr webData"
    and "locationIds webData = []"
  shows "performLocalSearch w f q c s =
           performWebSearch w q (Some (nullish c 5)) None
             ((snd (call_checkRateLimit w s))
                \<lparr>sent := sent s @
                   [local_search_request (BRAVE_API_KEY (env_BRAVE_API_KEY w)) q (nullish c 5)]\<rparr>) \<and>
         fst (performLocalSearch w f q c s) =
           (case fst (call_checkRateLimit w (snd (call_checkRateLimit w s))) of
              Inl e \<Rightarrow> Inl e
            | Inr _ \<Rightarrow>
                map_sum id web_results_text
                  (ok_json (fetch_web w (Suc (length (sent s)))
                     (web_search_request (BRAVE_API_KEY (env_BRAVE_API_KEY w)) q (nullish c 5) 0))))"
proof -
  let ?req = "local_search_request (BRAVE_API_KEY (env_BRAVE_API_KEY w)) q (nullish c 5)"
  let ?s1 = "snd (call_checkRateLimit w s)"
  let ?s2 = "?s1\<lparr>sent := sent s @ [?req]\<rparr>"
  have same: "performLocalSearch w f q c s = performWebSearch w q (Some (nullish c 5)) None ?s2"
    using assms by (rule performLocalSearch_fallback)
  have check: "fst (call_checkRateLimit w ?s2) = fst (call_checkRateLimit w ?s1)"
    by (simp add: call_checkRateLimit_sent_update)
  have "fst (performWebSearch w q (Some (nullish c 5)) None ?s2) =
          (case fst (call_checkRateLimit w ?s1) of
             Inl e \<Rightarrow> Inl e
           | Inr _ \<Rightarrow>
               map_sum id web_results_text
                 (ok_json (fetch_web w (Suc (length (sent s)))
                    (web_search_request (BRAVE_API_KEY (env_BRAVE_API_KEY w)) q (nullish c 5) 0))))"
  proof (cases "fst (call_checkRateLimit w ?s1)")
    case (Inl e)
    with check have "fst (call_checkRateLimit w ?s2) = Inl e"
      by simp
    with Inl show ?thesis
      by (simp add: performWebSearch_limited)
  next
    case (Inr u)
    with check have "fst (call_checkRateLimit w ?s2) = Inr u"
      by simp
    with Inr show ?thesis
      by (simp add: performWebSearch_allowed nullish_def)
  qed
  with same show ?thesis
    by simp
qed

theorem local_search_fallback_is_web_search_witness:
  "fst (performLocalSearch (example_world slow_clock (ok_response web_body)) toString ''cafe''
         (Some 3) (initial_state (example_world slow_clock (ok_response web_body)))) =
     Inr ''Title: T\<newline>Description: D\<newline>URL: U''"
proof -
  let ?v = "example_world slow_clock (ok_response web_body)"
  have v2: "fst (call_checkRateLimit ?v (initial_state ?v)) = Inr ()"
    by (simp add: run_defs)
  have v3: "ok_json (fetch_web ?v (length (sent (initial_state ?v)))
              (local_search_request (BRAVE_API_KEY (env_BRAVE_API_KEY ?v)) ''cafe'' (nullish (Some 3) 5))) =
            Inr web_body"
    by (simp add: example_world_def ok_response_def ok_json_def)
  have v4: "locationIds web_body = []"
    by (simp add: locationIds_def web_body_def)
  have z: "toString 0 = ''0''" "toString 3 = ''3''"
    by code_simp+
  have "fst (performWebSearch ?v ''cafe'' (Some (nullish (Some 3) 5)) None
          ((snd (call_checkRateLimit ?v (initial_state ?v)))
             \<lparr>sent := sent (initial_state ?v) @
                [local_search_request (BRAVE_API_KEY (env_BRAVE_API_KEY ?v)) ''cafe''
                   (nullish (Some 3) 5)]\<rparr>)) =
        Inr ''Title: T\<newline>Description: D\<newline>URL: U''"
    by (simp add: run_defs z)
  with local_search_fallback_is_web_search [OF v2 v3 v4, of toString, THEN conjunct1]
  show ?thesis
    by simp
qed

section \<open>Properties of the call-tool handler\<close>

lemma handler_web:
  "handler w f (web_request q c) s =
     (case performWebSearch w q (Some (nullish c 10)) None s of
        (Inl e, s1) \<Rightarrow>
          (\<lparr>content = [''Error: '' @ (case e of Error m \<Rightarrow> m | Other v \<Rightarrow> v)], isError = True\<rparr>, s1)
      | (Inr t, s1) \<Rightarrow> (\<lparr>content = [t], isError = False\<rparr>, s1))"
  by (simp add: handler_def handler_try_def web_request_def isBraveWebSearchArgs_def
      args_query_def split: prod.splits sum.splits)

lemma handler_local:
  "handler w f (local_request q c) s =
     (case performLocalSearch w f q (Some (nullish c 5)) s of
        (Inl e, s1) \<Rightarrow>
          (\<lparr>content = [''Error: '' @ (case e of Error m \<Rightarrow> m | Other v \<Rightarrow> v)], isError = True\<rparr>, s1)
      | (Inr t, s1) \<Rightarrow> (\<lparr>content = [t], isError = False\<rparr>, s1))"
  by (simp add: handler_def handler_try_def local_request_def isBraveLocalSearchArgs_def
      args_query_def split: prod.splits sum.splits)

lemma handler_limited:
  assumes "fst (call_checkRateLimit w s) \<noteq> Inr ()"
  shows "fst (handler w f (web_request q c) s) =
           \<lparr>content = [''Error: Rate limit exceeded''], isError = True\<rparr>"
    and "fst (handler w f (local_request q c) s) =
           \<lparr>content = [''Error: Rate limit exceeded''], isError = True\<rparr>"
proof -
  from assms call_checkRateLimit_outcome [of w s]
  have lim: "fst (call_checkRateLimit w s) = Inl (Error ''Rate limit exceeded'')"
    by blast
  show "fst (handler w f (web_request q c) s) =
          \<lparr>content = [''Error: Rate limit exceeded''], isError = True\<rparr>"
    by (simp add: handler_web performWebSearch_limited [OF lim])
  show "fst (handler w f (local_request q c) s) =
          \<lparr>content = [''Error: Rate limit exceeded''], isError = True\<rparr>"
    by (simp add: handler_local performLocalSearch_limited [OF lim])
qed

lemma handler_upstream_error:
  assumes "fst (call_checkRateLimit w s) = Inr ()"
    and "fetch_web w (length (sent s))
           (web_search_request (BRAVE_API_KEY (env_BRAVE_API_KEY w)) q (nullish c 10) 0) =
         Inr response"
    and "\<not> ok response"
    and "body_text response = Inr t"
  shows "fst (handler w f (web_request q c) s) =
           \<lparr>content = [''Error: Brave API error: '' @ toString (status response) @ '' '' @
                         statusText response @ ''\<newline>'' @ t],
            isError = True\<rparr>"
proof -
  have "ok_json (fetch_web w (length (sent s))
           (web_search_request (BRAVE_API_KEY (env_BRAVE_API_KEY w)) q (nullish c 10) 0)) =
        Inl (Error (''Brave API error: '' @ toString (status response) @ '' '' @
                    statusText response @ ''\<newline>'' @ t))"
    using assms(2-4) by (simp add: ok_json_def)
  then show ?thesis
    by (simp add: handler_web performWebSearch_allowed [OF assms(1)] nullish_def)
qed

text \<open>
  Claim C7.  The handler is a total function from request and state to an envelope and
  the next state: nothing it calls can make it throw.  A request without an arguments
  object, and a search request whose \<^verbatim>\<open>query\<close> is missing or not a string, give the
  failure envelope with \<^verbatim>\<open>Error: \<close> and the message, and leave the state alone.  A
  well-formed search request gives the failure envelope \<^verbatim>\<open>Error: \<close> plus the message of
  whatever the search threw, or the success envelope around the text the search returned.
  In particular a search stopped by the rate limiter gives
  \<^verbatim>\<open>Error: Rate limit exceeded\<close>, and a web search answered with an unsuccessful HTTP
  response gives \<^verbatim>\<open>Error: Brave API error: \<close> with status, reason and body.
\<close>

theorem handler_returns_envelope:
  "handler w f \<lparr>params_name = n, params_arguments = None\<rparr> s =
     (\<lparr>content = [''Error: No arguments provided''], isError = True\<rparr>, s) \<and>
   handler w f \<lparr>params_name = ''brave_web_search'',
                params_arguments = Some \<lparr>query = None, count = c\<rparr>\<rparr> s =
     (\<lparr>content = [''Error: Invalid arguments for brave_web_search''], isError = True\<rparr>, s) \<and>
   handler w f \<lparr>params_name = ''brave_web_search'',
                params_arguments = Some \<lparr>query = Some Not_a_string, count = c\<rparr>\<rparr> s =
     (\<lparr>content = [''Error: Invalid arguments for brave_web_search''], isError = True\<rparr>, s) \<and>
   handler w f \<lparr>params_name = ''brave_local_search'',
                params_arguments = Some \<lparr>query = None, count = c\<rparr>\<rparr> s =
     (\<lparr>content = [''Error: Invalid arguments for brave_local_search''], isError = True\<rparr>, s) \<and>
   handler w f \<lparr>params_name = ''brave_local_search'',
                params_arguments = Some \<lparr>query = Some Not_a_string, count = c\<rparr>\<rparr> s =
     (\<lparr>content = [''Error: Invalid arguments for brave_local_search''], isError = True\<rparr>, s) \<and>
   handler w f (web_request q c) s =
     (case performWebSearch w q (Some (nullish c 10)) None s of
        (Inl e, s1) \<Rightarrow>
          (\<lparr>content = [''Error: '' @ (case e of Error m \<Rightarrow> m | Other v \<Rightarrow> v)], isError = True\<rparr>, s1)
      | (Inr t, s1) \<Rightarrow> (\<lparr>content = [t], isError = False\<rparr>, s1)) \<and>
   handler w f (local_request q c) s =
     (case performLocalSearch w f q (Some (nullish c 5)) s of
        (Inl e, s1) \<Rightarrow>
          (\<lparr>content = [''Error: '' @ (case e of Error m \<Rightarrow> m | Other v \<Rightarrow> v)], isError = True\<rparr>, s1)
      | (Inr t, s1) \<Rightarrow> (\<lparr>content = [t], isError = False\<rparr>, s1)) \<and>
   (fst (call_checkRateLimit w s) \<noteq> Inr () \<longrightarrow>
      fst (handler w f (web_request q c) s) =
        \<lparr>content = [''Error: Rate limit exceeded''], isError = True\<rparr> \<and>
      fst (handler w f (local_request q c) s) =
        \<lparr>content = [''Error: Rate limit exceeded''], isError = True\<rparr>) \<and>
   (fst (call_checkRateLimit w s) = Inr () \<and>
    fetch_web w (length (sent s))
      (web_search_request (BRAVE_API_KEY (env_BRAVE_API_KEY w)) q (nullish c 10) 0) = Inr response \<and>
    \<not> ok response \<and> body_text response = Inr t \<longrightarrow>
      fst (handler w f (web_request q c) s) =
        \<lparr>content = [''Error: Brave API error: '' @ toString (status response) @ '' '' @
                      statusText response @ ''\<newline>'' @ t],
         isError = True\<rparr>)"
proof (intro conjI impI)
  show "handler w f \<lparr>params_name = n, params_arguments = None\<rparr> s =
          (\<lparr>content = [''Error: No arguments provided''], isError = True\<rparr>, s)"
    by (simp add: handler_def handler_try_def)
  show "handler w f \<lparr>params_name = ''brave_web_search'',
                params_arguments = Some \<lparr>query = None, count = c\<rparr>\<rparr> s =
     (\<lparr>content = [''Error: Invalid arguments for brave_web_search''], isError = True\<rparr>, s)"
    by (simp add: handler_def handler_try_def isBraveWebSearchArgs_def)
  show "handler w f \<lparr>params_name = ''brave_web_search'',
                params_arguments = Some \<lparr>query = Some Not_a_string, count = c\<rparr>\<rparr> s =
     (\<lparr>content = [''Error: Invalid arguments for brave_web_search''], isError = True\<rparr>, s)"
    by (simp add: handler_def handler_try_def isBraveWebSearchArgs_def)
  show "handler w f \<lparr>params_name = ''brave_local_search'',
                params_arguments = Some \<lparr>query = None, count = c\<rparr>\<rparr> s =
     (\<lparr>content = [''Error: Invalid arguments for brave_local_search''], isError = True\<rparr>, s)"
    by (simp add: handler_def handler_try_def isBraveLocalSearchArgs_def)
  show "handler w f \<lparr>params_name = ''brave_local_search'',
                params_arguments = Some \<lparr>query = Some Not_a_string, count = c\<rparr>\<rparr> s =
     (\<lparr>content = [''Error: Invalid arguments for brave_local_search''], isError = True\<rparr>, s)"
    by (simp add: handler_def handler_try_def isBraveLocalSearchArgs_def)
  show "handler w f (web_request q c) s =
     (case performWebSearch w q (Some (nullish c 10)) None s of
        (Inl e, s1) \<Rightarrow>
          (\<lparr>content = [''Error: '' @ (case e of Error m \<Rightarrow> m | Other v \<Rightarrow> v)], isError = True\<rparr>, s1)
      | (Inr t, s1) \<Rightarrow> (\<lparr>content = [t], isError = False\<rparr>, s1))"
    by (rule handler_web)
  show "handler w f (local_request q c) s =
     (case performLocalSearch w f q (Some (nullish c 5)) s of
        (Inl e, s1) \<Rightarrow>
          (\<lparr>content = [''Error: '' @ (case e of Error m \<Rightarrow> m | Other v \<Rightarrow> v)], isError = True\<rparr>, s1)
      | (Inr t, s1) \<Rightarrow> (\<lparr>content = [t], isError = False\<rparr>, s1))"
    by (rule handler_local)
next
  assume "fst (call_checkRateLimit w s) \<noteq> Inr ()"
  then show "fst (handler w f (web_request q c) s) =
        \<lparr>content = [''Error: Rate limit exceeded''], isError = True\<rparr>"
    and "fst (handler w f (local_request q c) s) =
        \<lparr>content = [''Error: Rate limit exceeded''], isError = True\<rparr>"
    by (rule handler_limited)+
next
  assume "fst (call_checkRateLimit w s) = Inr () \<and>
    fetch_web w (length (sent s))
      (web_search_request (BRAVE_API_KEY (env_BRAVE_API_KEY w)) q (nullish c 10) 0) = Inr response \<and>
    \<not> ok response \<and> body_text response = Inr t"
  then show "fst (handler w f (web_request q c) s) =
        \<lparr>content = [''Error: Brave API error: '' @ toString (status response) @ '' '' @
                      statusText response @ ''\<newline>'' @ t],
         isError = True\<rparr>"
    by (simp add: handler_upstream_error)
qed

theorem handler_returns_envelope_witness:
  "fst (handler (example_world fast_clock (ok_response places_body)) toString
          (local_request ''cafe'' None)
          (snd (handler (example_world fast_clock (ok_response places_body)) toString
                  (web_request ''cafe'' None)
                  (initial_state (example_world fast_clock (ok_response places_body)))))) =
     \<lparr>content = [''Error: Rate limit exceeded''], isError = True\<rparr> \<and>
   fst (handler (example_world slow_clock error_response) toString (web_request ''cafe'' None)
          (initial_state (example_world slow_clock error_response))) =
     \<lparr>content = [''Error: Brave API error: 429 Too Many Requests\<newline>slow down''], isError = True\<rparr> \<and>
   fst (handler (example_world slow_clock (ok_response places_body)) toString
          (local_request ''cafe'' None)
          (initial_state (example_world slow_clock (ok_response places_body)))) =
     \<lparr>content = [''Name: Cafe\<newline>Address: 1 Main St, 90210\<newline>Phone: N/A\<newline>Rating: 4 (0 reviews)\<newline>Price Range: $$\<newline>Hours: N/A\<newline>Description: Nice\<newline>''],
      isError = False\<rparr>"
proof -
  let ?w = "example_world fast_clock (ok_response places_body)"
  let ?s = "snd (handler ?w toString (web_request ''cafe'' None) (initial_state ?w))"
  let ?v = "example_world slow_clock error_response"
  let ?u = "example_world slow_clock (ok_response places_body)"
  have n: "toString 429 = ''429''" "toString 4 = ''4''" "toString 0 = ''0''" "toString 5 = ''5''"
    "toString 10 = ''10''"
    by code_simp+
  have a: "fst (call_checkRateLimit ?w ?s) \<noteq> Inr ()"
    by (simp add: run_defs n)
  have b: "fst (call_checkRateLimit ?v (initial_state ?v)) = Inr () \<and>
           fetch_web ?v (length (sent (initial_state ?v)))
             (web_search_request (BRAVE_API_KEY (env_BRAVE_API_KEY ?v)) ''cafe'' (nullish None 10) 0) =
           Inr \<lparr>ok = False, status = 429, statusText = ''Too Many Requests'',
                body_text = Inr ''slow down'', body_json = Inl (Error ''Unexpected token'')\<rparr> \<and>
           \<not> ok \<lparr>ok = False, status = 429, statusText = ''Too Many Requests'',
                   body_text = Inr ''slow down'',
                   body_json = (Inl (Error ''Unexpected token'') :: thrown + braveWeb)\<rparr> \<and>
           body_text \<lparr>ok = False, status = 429, statusText = ''Too Many Requests'',
                      body_text = Inr ''slow down'',
                      body_json = (Inl (Error ''Unexpected token'') :: thrown + braveWeb)\<rparr> =
           Inr ''slow down''"
    by (simp add: run_defs)
  have c: "performLocalSearch ?u toString ''cafe'' (Some (nullish None 5)) (initial_state ?u) =
             (Inr ''Name: Cafe\<newline>Address: 1 Main St, 90210\<newline>Phone: N/A\<newline>Rating: 4 (0 reviews)\<newline>Price Range: $$\<newline>Hours: N/A\<newline>Description: Nice\<newline>'',
              snd (performLocalSearch ?u toString ''cafe'' (Some (nullish None 5)) (initial_state ?u)))"
    by (simp add: run_defs n)
  from handler_returns_envelope [where w = ?w and f = toString and s = ?s and c = None
      and q = "''cafe''" and n = "[]"] a
  have first: "fst (handler ?w toString (local_request ''cafe'' None) ?s) =
                 \<lparr>content = [''Error: Rate limit exceeded''], isError = True\<rparr>"
    by blast
  let ?r = "\<lparr>ok = False, status = 429, statusText = ''Too Many Requests'',
             body_text = Inr ''slow down'',
             body_json = (Inl (Error ''Unexpected token'') :: thrown + braveWeb)\<rparr>"
  from handler_returns_envelope [where w = ?v and f = toString and s = "initial_state ?v"
      and c = None and q = "''cafe''" and t = "''slow down''" and n = "[]" and response = ?r] b
  have "fst (handler ?v toString (web_request ''cafe'' None) (initial_state ?v)) =
          \<lparr>content = [''Error: Brave API error: '' @ toString (status ?r) @ '' '' @
                        statusText ?r @ ''\<newline>'' @ ''slow down''],
           isError = True\<rparr>"
    by blast
  then have second: "fst (handler ?v toString (web_request ''cafe'' None) (initial_state ?v)) =
                 \<lparr>content = [''Error: Brave API error: 429 Too Many Requests\<newline>slow down''],
                  isError = True\<rparr>"
    by (simp add: n)
  from handler_returns_envelope [where w = ?u and f = toString and s = "initial_state ?u"
      and c = None and q = "''cafe''" and n = "[]"]
  have "handler ?u toString (local_request ''cafe'' None) (initial_state ?u) =
          (case performLocalSearch ?u toString ''cafe'' (Some (nullish None 5)) (initial_state ?u) of
             (Inl e, s1) \<Rightarrow>
               (\<lparr>content = [''Error: '' @ (case e of Error m \<Rightarrow> m | Other v \<Rightarrow> v)],
                 isError = True\<rparr>, s1)
           | (Inr t, s1) \<Rightarrow> (\<lparr>content = [t], isError = False\<rparr>, s1))"
    by blast
  then have third: "fst (handler ?u toString (local_request ''cafe'' None) (initial_state ?u)) =
      \<lparr>content = [''Name: Cafe\<newline>Address: 1 Main St, 90210\<newline>Phone: N/A\<newline>Rating: 4 (0 reviews)\<newline>Price Range: $$\<newline>Hours: N/A\<newline>Description: Nice\<newline>''],
       isError = False\<rparr>"
    by (subst (asm) c) simp
  from first second third show ?thesis
    by blast
qed

text \<open>
  Claim C8.  A request that has an arguments object and names a tool other than the two
  registered ones gets, as the value the handler returns, the failure envelope whose text
  is \<^verbatim>\<open>Unknown tool: \<close> followed by the name; nothing is thrown and the state is untouched.
\<close>

theorem unknown_tool_envelope:
  assumes "n \<noteq> ''brave_web_search''" and "n \<noteq> ''brave_local_search''"
  shows "handler w f \<lparr>params_name = n, params_arguments = Some a\<rparr> s =
           (\<lparr>content = [''Unknown tool: '' @ n], isError = True\<rparr>, s) \<and>
         handler_try w f \<lparr>params_name = n, params_arguments = Some a\<rparr> s =
           (Inr \<lparr>content = [''Unknown tool: '' @ n], isError = True\<rparr>, s)"
  using assms by (simp add: handler_def handler_try_def)

theorem unknown_tool_envelope_witness:
  "handler (example_world slow_clock (ok_response web_body)) toString
     \<lparr>params_name = ''brave_news_search'',
      params_arguments = Some \<lparr>query = Some (String ''cafe''), count = None\<rparr>\<rparr>
     (initial_state (example_world slow_clock (ok_response web_body))) =
   (\<lparr>content = [''Unknown tool: '' @ ''brave_news_search''], isError = True\<rparr>,
    initial_state (example_world slow_clock (ok_response web_body))) \<and>
   handler_try (example_world slow_clock (ok_response web_body)) toString
     \<lparr>params_name = ''brave_news_search'',
      params_arguments = Some \<lparr>query = Some (String ''cafe''), count = None\<rparr>\<rparr>
     (initial_state (example_world slow_clock (ok_response web_body))) =
   (Inr \<lparr>content = [''Unknown tool: '' @ ''brave_news_search''], isError = True\<rparr>,
    initial_state (example_world slow_clock (ok_response web_body)))"
proof -
  have a: "''brave_news_search'' \<noteq> ''brave_web_search''"
    and b: "''brave_news_search'' \<noteq> ''brave_local_search''"
    by simp_all
  show ?thesis
    by (rule unknown_tool_envelope [OF a b])
qed

section \<open>The per-month counter over a run\<close>

lemma call_checkRateLimit_month:
  "month (requestCount s) \<le> month (requestCount (snd (call_checkRateLimit w s)))"
  by (simp add: call_checkRateLimit_eq checkRateLimit_month_mono)

lemma performWebSearch_month:
  "month (requestCount s) \<le> month (requestCount (snd (performWebSearch w q c off s)))"
proof (cases "fst (call_checkRateLimit w s)")
  case (Inl e)
  then show ?thesis
    by (simp add: performWebSearch_limited call_checkRateLimit_month)
next
  case (Inr u)
  then show ?thesis
    by (simp add: performWebSearch_allowed call_checkRateLimit_month)
qed

lemma getPoisData_month:
  "month (requestCount s) \<le> month (requestCount (snd (getPoisData w ids s)))"
  using call_checkRateLimit_month [of s w]
  by (cases "call_checkRateLimit w s")
     (auto simp: getPoisData_def fetch_def split: sum.splits)

lemma getDescriptionsData_month:
  "month (requestCount s) \<le> month (requestCount (snd (getDescriptionsData w ids s)))"
  using call_checkRateLimit_month [of s w]
  by (cases "call_checkRateLimit w s")
     (auto simp: getDescriptionsData_def fetch_def split: sum.splits)

lemma performLocalSearch_month:
  "month (requestCount s) \<le> month (requestCount (snd (performLocalSearch w f q c s)))"
proof -
  let ?req = "local_search_request (BRAVE_API_KEY (env_BRAVE_API_KEY w)) q (nullish c 5)"
  obtain r s1 where c1: "call_checkRateLimit w s = (r, s1)"
    by (cases "call_checkRateLimit w s")
  have m1: "month (requestCount s) \<le> month (requestCount s1)"
    using call_checkRateLimit_month [of s w] c1 by simp
  let ?s2 = "s1\<lparr>sent := sent s1 @ [?req]\<rparr>"
  have m2: "month (requestCount s) \<le> month (requestCount ?s2)"
    using m1 by simp
  show ?thesis
  proof (cases r)
    case (Inl e)
    with c1 m1 show ?thesis
      by (simp add: performLocalSearch_def)
  next
    case (Inr u)
    note r = this
    show ?thesis
    proof (cases "ok_json (fetch_web w (length (sent s1)) ?req)")
      case (Inl e)
      with c1 r m2 show ?thesis
        by (simp add: performLocalSearch_def fetch_def)
    next
      case (Inr d)
      note json = this
      show ?thesis
      proof (cases "locationIds d = []")
        case True
        have "month (requestCount ?s2) \<le>
                month (requestCount (snd (performWebSearch w q (Some (nullish c 5)) None ?s2)))"
          by (rule performWebSearch_month)
        with m2 c1 r json True show ?thesis
          by (simp add: performLocalSearch_def fetch_def)
      next
        case False
        obtain p s3 where g1: "getPoisData w (locationIds d) ?s2 = (p, s3)"
          by (cases "getPoisData w (locationIds d) ?s2")
        obtain dd s4 where g2: "getDescriptionsData w (locationIds d) s3 = (dd, s4)"
          by (cases "getDescriptionsData w (locationIds d) s3")
        have "month (requestCount ?s2) \<le> month (requestCount s3)"
          using getPoisData_month [of ?s2 w "locationIds d"] g1 by simp
        moreover have "month (requestCount s3) \<le> month (requestCount s4)"
          using getDescriptionsData_month [of s3 w "locationIds d"] g2 by simp
        ultimately have "month (requestCount s) \<le> month (requestCount s4)"
          using m2 by linarith
        with c1 r json False g1 g2 show ?thesis
          by (simp add: performLocalSearch_def fetch_def split: sum.splits prod.splits)
      qed
    qed
  qed
qed

lemma handler_month:
  "month (requestCount s) \<le> month (requestCount (snd (handler w f request s)))"
proof (cases "params_arguments request")
  case None
  then show ?thesis
    by (simp add: handler_def handler_try_def)
next
  case (Some a)
  note args = this
  show ?thesis
  proof (cases "params_name request = ''brave_web_search'' \<and> isBraveWebSearchArgs a")
    case True
    obtain r s1 where run: "performWebSearch w (args_query a) (Some (nullish (count a) 10)) None s = (r, s1)"
      by (cases "performWebSearch w (args_query a) (Some (nullish (count a) 10)) None s")
    have "month (requestCount s) \<le> month (requestCount s1)"
      using performWebSearch_month [of s w "args_query a" "Some (nullish (count a) 10)" None] run
      by simp
    with args True run show ?thesis
      by (cases r) (simp_all add: handler_def handler_try_def)
  next
    case False
    note not_web = this
    show ?thesis
    proof (cases "params_name request = ''brave_local_search'' \<and> isBraveLocalSearchArgs a")
      case True
      obtain r s1 where run: "performLocalSearch w f (args_query a) (Some (nullish (count a) 5)) s = (r, s1)"
        by (cases "performLocalSearch w f (args_query a) (Some (nullish (count a) 5)) s")
      have "month (requestCount s) \<le> month (requestCount s1)"
        using performLocalSearch_month [of s w f "args_query a" "Some (nullish (count a) 5)"] run
        by simp
      with args True run show ?thesis
        by (cases r) (simp_all add: handler_def handler_try_def)
    next
      case False
      with args not_web show ?thesis
        by (auto simp: handler_def handler_try_def)
    qed
  qed
qed

text \<open>
  Claim C9.  The per-month counter is zero when the process starts and never goes down:
  not over any sequence of \<^verbatim>\<open>checkRateLimit\<close> calls, at any clock readings, and not over
  any call of the handler, which reaches the counters through \<^verbatim>\<open>checkRateLimit\<close> only.
  From a state where the counter has reached 15000, every call of a sequence throws
  \<^verbatim>\<open>Rate limit exceeded\<close> and the counter stays where it is.
\<close>

theorem month_counter_never_resets:
  "month (requestCount (initial_state w)) = 0 \<and>
   month rc \<le> month (snd (checkRateLimit_calls nows rc)) \<and>
   month (requestCount s) \<le> month (requestCount (snd (handler w f request s))) \<and>
   (15000 \<le> month rc \<longrightarrow>
      fst (checkRateLimit_calls nows rc) =
        replicate (length nows) (Inl (Error ''Rate limit exceeded'')) \<and>
      month (snd (checkRateLimit_calls nows rc)) = month rc)"
  using checkRateLimit_calls_month_mono [of rc nows] checkRateLimit_calls_exhausted [of rc nows]
    handler_month [of s w f request]
  by (simp add: initial_state_def)

theorem month_counter_never_resets_witness:
  "month \<lparr>second = 0, month = 15000, lastReset = 0\<rparr> \<le>
     month (snd (checkRateLimit_calls [5000, 90000000] \<lparr>second = 0, month = 15000, lastReset = 0\<rparr>)) \<and>
   fst (checkRateLimit_calls [5000, 90000000] \<lparr>second = 0, month = 15000, lastReset = 0\<rparr>) =
     [Inl (Error ''Rate limit exceeded''), Inl (Error ''Rate limit exceeded'')] \<and>
   month (snd (checkRateLimit_calls [5000, 90000000] \<lparr>second = 0, month = 15000, lastReset = 0\<rparr>)) = 15000"
  using month_counter_never_resets [where rc = "\<lparr>second = 0, month = 15000, lastReset = 0\<rparr>"
      and nows = "[5000, 90000000]" and w = "example_world slow_clock (ok_response web_body)"
      and f = toString and request = "web_request ''cafe'' None"
      and s = "initial_state (example_world slow_clock (ok_response web_body))"]
  by (simp add: checkRateLimit_def RATE_LIMIT_perSecond_def RATE_LIMIT_perMonth_def)

end
